theory Spec2Isabelle
  imports Complex_Main "HOL-Library.Word" "HOL-Library.Multiset"
begin

section \<open>Floating-point values\<close>

text \<open>
  A Python or numpy float is a finite number, an infinity or NaN. A finite float is
  the real number it stands for; comparisons and absolute values of floats are exact,
  so they are those of the reals. Floating-point arithmetic that rounds is left to the
  library functions, which are parameters of the model.
\<close>

datatype npfloat = Fin real | PInf | NInf | NaN

text \<open>\<open>r >= t\<close> for a finite \<open>r\<close>; every comparison with NaN is false.\<close>

fun ge_float :: "real \<Rightarrow> npfloat \<Rightarrow> bool" where
  "ge_float r (Fin t) = (t \<le> r)"
| "ge_float r NInf = True"
| "ge_float r PInf = False"
| "ge_float r NaN = False"

text \<open>\<open>a < b\<close> on floats.\<close>

fun lt_float :: "npfloat \<Rightarrow> npfloat \<Rightarrow> bool" where
  "lt_float NaN _ = False"
| "lt_float _ NaN = False"
| "lt_float (Fin a) (Fin b) = (a < b)"
| "lt_float (Fin _) PInf = True"
| "lt_float (Fin _) NInf = False"
| "lt_float NInf NInf = False"
| "lt_float NInf _ = True"
| "lt_float PInf _ = False"

section \<open>Offsets and patch pairing (\<open>analyze_cmb_correlations\<close>)\<close>

text \<open>
  \<^verbatim>\<open>test_separations = [len(valid_data) // 4, len(valid_data) // 2, 3 * len(valid_data) // 4]\<close>
\<close>

definition test_separations :: "int \<Rightarrow> int list" where
  "test_separations n = [n div 4, n div 2, 3 * n div 4]"

text \<open>
  \<^verbatim>\<open>start2 = (start1 + separation) % len(valid_data)
  if start2 + patch_size > len(valid_data):
      start2 = len(valid_data) - patch_size\<close>
  The search reaches these lines with a non-empty array only (see
  \<open>analyze_cmb_correlations\<close> below), so the modulus is positive; Python's \<open>%\<close> and
  HOL's \<open>mod\<close> agree there, also on negative numbers.
\<close>

definition second_start :: "int \<Rightarrow> int \<Rightarrow> int \<Rightarrow> int \<Rightarrow> int" where
  "second_start n patch_size start1 separation =
     (let start2 = (start1 + separation) mod n
      in if start2 + patch_size > n then n - patch_size else start2)"

text \<open>\<^verbatim>\<open>angular_sep = 360.0 * separation / len(valid_data)\<close>\<close>

definition angular_sep :: "int \<Rightarrow> int \<Rightarrow> real" where
  "angular_sep separation n = 360 * real_of_int separation / real_of_int n"

section \<open>Exceptions and slices\<close>

datatype py_exception = ValueError | IndexError | ZeroDivisionError

text \<open>
  A Python slice \<open>xs[lo:hi]\<close> with integer bounds: a negative bound counts from the
  end, and both bounds are cut to the length of the sequence.
\<close>

definition slice_bound :: "nat \<Rightarrow> int \<Rightarrow> nat" where
  "slice_bound len i = (if i < 0 then nat (int len + i) else min len (nat i))"

definition py_slice :: "'a list \<Rightarrow> int \<Rightarrow> int \<Rightarrow> 'a list" where
  "py_slice xs lo hi =
     (let a = slice_bound (length xs) lo; b = slice_bound (length xs) hi
      in take (b - a) (drop a xs))"

section \<open>The correlation search (\<open>analyze_cmb_correlations\<close>)\<close>

record match_record =
  location1 :: int
  location2 :: int
  correlation :: real
  separation_pixels :: int
  separation_degrees :: real
  match_patch_size :: int

text \<open>
  \<open>np.corrcoef\<close> is a library outside the repository and a parameter of the model:
  \<open>corrcoef patch1 patch2\<close> is what \<open>np.corrcoef(patch1, patch2)[0, 1]\<close> returns or
  raises. The library computes in 64-bit floating point and clips its result, so it
  returns NaN (\<open>None\<close> here) or a number between \<open>-1\<close> and \<open>1\<close>; nothing is assumed about
  which.

  The body of the inner loop, for one start and one separation. Whatever
  \<open>np.corrcoef\<close> raises is swallowed by the bare \<open>except: continue\<close>; a NaN
  correlation fails the test \<open>not np.isnan(correlation)\<close>. Either way no record is
  appended and the loop goes on. There is no other test on the patches.
\<close>

definition scan_pair ::
  "(real list \<Rightarrow> real list \<Rightarrow> py_exception + real option) \<Rightarrow> real list \<Rightarrow> int \<Rightarrow> npfloat
     \<Rightarrow> int \<Rightarrow> int \<Rightarrow> match_record list" where
  "scan_pair corrcoef valid_data patch_size min_correlation start1 separation =
     (let n = int (length valid_data);
          patch1 = py_slice valid_data start1 (start1 + patch_size);
          start2 = second_start n patch_size start1 separation;
          patch2 = py_slice valid_data start2 (start2 + patch_size)
      in case corrcoef patch1 patch2 of
           Inl _ \<Rightarrow> []
         | Inr None \<Rightarrow> []
         | Inr (Some c) \<Rightarrow>
             if ge_float \<bar>c\<bar> min_correlation
             then [\<lparr>location1 = start1, location2 = start2, correlation = c,
                    separation_pixels = separation,
                    separation_degrees = angular_sep separation n,
                    match_patch_size = patch_size\<rparr>]
             else [])"

text \<open>\<^verbatim>\<open>valid_data = cmb_data[np.isfinite(cmb_data)]\<close>\<close>

fun finite_values :: "npfloat list \<Rightarrow> real list" where
  "finite_values [] = []"
| "finite_values (Fin x # vs) = x # finite_values vs"
| "finite_values (_ # vs) = finite_values vs"

text \<open>
  numpy's global random generator is a library outside the repository. Its state has
  an abstract type \<open>'g\<close>, and the two calls the code makes are parameters of the model:
  \<open>seed s g\<close> is the state after \<open>np.random.seed(s)\<close> in state \<open>g\<close>, and
  \<open>choice g a k\<close> is what \<open>np.random.choice(a, k, replace=False)\<close> returns or raises in
  state \<open>g\<close>.

  \<^verbatim>\<open>np.random.seed(42)
  max_start = len(valid_data) - patch_size
  sample_starts = np.random.choice(max_start, min(n_samples, max_start), replace=False)\<close>
\<close>

definition sample_starts ::
  "(int \<Rightarrow> 'g \<Rightarrow> 'g) \<Rightarrow> ('g \<Rightarrow> int \<Rightarrow> int \<Rightarrow> py_exception + int list) \<Rightarrow> 'g
     \<Rightarrow> int \<Rightarrow> int \<Rightarrow> int \<Rightarrow> py_exception + int list" where
  "sample_starts seed choice g n patch_size n_samples =
     (let max_start = n - patch_size
      in choice (seed 42 g) max_start (min n_samples max_start))"

text \<open>
  The whole search. With too little data it returns the empty list at once; the
  statistics printout takes \<open>np.min\<close> of the data, which raises on an empty array; an
  exception of the sampler is not caught. The records are appended start by start, and
  for each start in the order of the three separations.
\<close>

definition analyze_cmb_correlations ::
  "(int \<Rightarrow> 'g \<Rightarrow> 'g) \<Rightarrow> ('g \<Rightarrow> int \<Rightarrow> int \<Rightarrow> py_exception + int list)
     \<Rightarrow> (real list \<Rightarrow> real list \<Rightarrow> py_exception + real option) \<Rightarrow> 'g
     \<Rightarrow> npfloat list \<Rightarrow> int \<Rightarrow> int \<Rightarrow> npfloat \<Rightarrow> py_exception + match_record list" where
  "analyze_cmb_correlations seed choice corrcoef g cmb_data patch_size n_samples
       min_correlation =
     (let valid_data = finite_values cmb_data;
          n = int (length valid_data)
      in if n < patch_size * 2 then Inr []
         else if valid_data = [] then Inl ValueError
         else case sample_starts seed choice g n patch_size n_samples of
                Inl e \<Rightarrow> Inl e
              | Inr starts \<Rightarrow>
                  Inr (concat (map (\<lambda>start1.
                         concat (map (scan_pair corrcoef valid_data patch_size min_correlation
                                        start1)
                                   (test_separations n)))
                       starts)))"

text \<open>
  What the library documents for \<open>choice\<close> with \<open>replace=False\<close>: for a population
  size \<open>a > 0\<close> and a sample size \<open>0 \<le> k \<le> a\<close> it returns \<open>k\<close> distinct elements of
  \<open>arange(a)\<close>, that is of \<open>0, ..., a - 1\<close>. And for \<open>seed\<close>: the state after seeding
  depends on the seed alone.
\<close>

definition choice_contract :: "('g \<Rightarrow> int \<Rightarrow> int \<Rightarrow> py_exception + int list) \<Rightarrow> bool" where
  "choice_contract choice \<longleftrightarrow>
     (\<forall>g a k. 0 < a \<and> 0 \<le> k \<and> k \<le> a \<longrightarrow>
        (\<exists>xs. choice g a k = Inr xs \<and> int (length xs) = k \<and> distinct xs
              \<and> set xs \<subseteq> {0 ..< a}))"

definition seed_contract :: "(int \<Rightarrow> 'g \<Rightarrow> 'g) \<Rightarrow> bool" where
  "seed_contract seed \<longleftrightarrow> (\<forall>s g g'. seed s g = seed s g')"

section \<open>Ranking and the saved report (\<open>main\<close>)\<close>

text \<open>
  \<^verbatim>\<open>matches.sort(key=lambda x: abs(x['correlation']), reverse=True)\<close>
  Python's sort is stable, also with \<open>reverse=True\<close>: records of equal magnitude keep
  their order.
\<close>

definition rank_matches :: "match_record list \<Rightarrow> match_record list" where
  "rank_matches matches = sort_key (\<lambda>x. - \<bar>correlation x\<bar>) matches"

record results =
  analysis_type :: string
  data_file :: string
  data_points :: nat
  matches_found :: nat
  strong_matches :: nat
  max_correlation :: real
  mean_correlation :: real
  top_matches :: "match_record list"

text \<open>
  The report \<open>main\<close> saves, from the matches of the search; nothing is saved when
  there is no match (\<open>if matches:\<close>). \<open>np.mean\<close>, which rounds, is a parameter.
\<close>

definition main_results ::
  "(real list \<Rightarrow> real) \<Rightarrow> string \<Rightarrow> nat \<Rightarrow> match_record list \<Rightarrow> results option" where
  "main_results np_mean cmb_file n_data found =
     (if found = [] then None
      else let matches = rank_matches found;
               correlations = map correlation matches;
               strong = filter (\<lambda>m. \<bar>correlation m\<bar> > 0.2) matches
           in Some \<lparr>analysis_type = ''real_cmb_echo_detection'',
                    data_file = cmb_file,
                    data_points = n_data,
                    matches_found = length matches,
                    strong_matches = length strong,
                    max_correlation = Max (set (map abs correlations)),
                    mean_correlation = np_mean correlations,
                    top_matches = take 20 matches\<rparr>)"

section \<open>The significance test (\<open>statistical_analysis\<close>)\<close>

record analysis_stats =
  correlations :: "real list"
  separations :: "real list"
  sep_90 :: nat
  sep_180 :: nat
  sep_270 :: nat
  p_value :: npfloat
  t_stat :: npfloat

text \<open>
  \<open>scipy.stats.ttest_1samp\<close> is a library outside the repository and a parameter of the
  model: \<open>ttest_1samp sample popmean\<close> is the pair of the t statistic and the p-value.
  The report is read back from the file \<open>main\<close> wrote. The overview printout divides
  by the number of data points, which raises a ZeroDivisionError when it is zero.
\<close>

definition statistical_analysis ::
  "(real list \<Rightarrow> real \<Rightarrow> npfloat \<times> npfloat) \<Rightarrow> results \<Rightarrow> py_exception + analysis_stats" where
  "statistical_analysis ttest_1samp res =
     (let matches = top_matches res;
          all_correlations = map correlation matches;
          seps = map separation_degrees matches
      in if data_points res = 0 then Inl ZeroDivisionError
         else let abs_correlations = map abs all_correlations;
                  (t, p) = ttest_1samp abs_correlations 0
              in Inr \<lparr>correlations = all_correlations,
                      separations = seps,
                      sep_90 = length (filter (\<lambda>s. 85 \<le> s \<and> s \<le> 95) seps),
                      sep_180 = length (filter (\<lambda>s. 175 \<le> s \<and> s \<le> 185) seps),
                      sep_270 = length (filter (\<lambda>s. 265 \<le> s \<and> s \<le> 275) seps),
                      p_value = p,
                      t_stat = t\<rparr>)"

section \<open>The format reader (\<open>read_fits_simple\<close>)\<close>

text \<open>
  A file is the list of its bytes, a byte a \<open>char\<close>. \<open>bytes.decode('ascii',
  errors='ignore')\<close> drops every byte above 127.
\<close>

definition ascii_ignore :: "string \<Rightarrow> string" where
  "ascii_ignore bs = filter (\<lambda>c. (of_char c :: nat) < 128) bs"

text \<open>\<open>s.startswith(pre)\<close>\<close>

definition startswith :: "string \<Rightarrow> string \<Rightarrow> bool" where
  "startswith s pre = (take (length pre) s = pre)"

text \<open>
  The header loop, on the file contents and the position of the file object:
  \<^verbatim>\<open>header_cards = []
  while True:
      card = f.read(80).decode('ascii', errors='ignore')
      header_cards.append(card)
      if card.startswith('END'):
          break\<close>
  \<open>f.read(80)\<close> returns the next 80 bytes, fewer at the end of the file and none
  beyond it, and advances the position by what it returned. The loop may run for ever,
  so the function is partial: \<open>None\<close> stands for a loop that never ends (memory is
  unbounded in the model).
\<close>

partial_function (option) read_cards :: "string \<Rightarrow> nat \<Rightarrow> string list \<Rightarrow> string list option" where
  "read_cards contents pos header_cards =
     (let raw = take 80 (drop pos contents);
          card' = ascii_ignore raw;
          cards = header_cards @ [card']
      in if startswith card' ''END'' then Some cards
         else read_cards contents (pos + length raw) cards)"

text \<open>\<open>s.split(sep)\<close> for a separator of one character.\<close>

fun split_on :: "char \<Rightarrow> string \<Rightarrow> string list" where
  "split_on sep [] = [[]]"
| "split_on sep (c # cs) =
     (if c = sep then [] # split_on sep cs
      else (case split_on sep cs of w # ws \<Rightarrow> (c # w) # ws | [] \<Rightarrow> [[c]]))"

text \<open>
  \<open>s.strip()\<close>: the ASCII characters Python treats as whitespace are the codes 9 to 13
  and 28 to 32.
\<close>

definition is_space :: "char \<Rightarrow> bool" where
  "is_space c = (let k = (of_char c :: nat) in (9 \<le> k \<and> k \<le> 13) \<or> (28 \<le> k \<and> k \<le> 32))"

definition py_strip :: "string \<Rightarrow> string" where
  "py_strip s = rev (dropWhile is_space (rev (dropWhile is_space s)))"

text \<open>
  \<open>int(s)\<close> for a string: surrounding whitespace is ignored, a sign may come first, then
  decimal digits, where a single underscore may stand between two digits. Anything else
  raises a ValueError.
\<close>

definition is_digit :: "char \<Rightarrow> bool" where
  "is_digit c = (let k = (of_char c :: nat) in 48 \<le> k \<and> k \<le> 57)"

definition digit_val :: "char \<Rightarrow> nat" where
  "digit_val c = of_char c - 48"

fun more_digits :: "string \<Rightarrow> nat \<Rightarrow> nat option" where
  "more_digits [] acc = Some acc"
| "more_digits (c # cs) acc =
     (if is_digit c then more_digits cs (10 * acc + digit_val c)
      else if c = CHR ''_'' then
        (case cs of
           [] \<Rightarrow> None
         | d # ds \<Rightarrow> if is_digit d then more_digits ds (10 * acc + digit_val d) else None)
      else None)"

definition py_digits :: "string \<Rightarrow> nat option" where
  "py_digits s =
     (case s of [] \<Rightarrow> None | c # cs \<Rightarrow> if is_digit c then more_digits cs (digit_val c) else None)"

definition py_int :: "string \<Rightarrow> py_exception + int" where
  "py_int s =
     (let t = py_strip s;
          (neg, ds) = (case t of
                         c # r \<Rightarrow> if c = CHR ''-'' then (True, r)
                                  else if c = CHR ''+'' then (False, r) else (False, t)
                       | [] \<Rightarrow> (False, t))
      in case py_digits ds of
           None \<Rightarrow> Inl ValueError
         | Some v \<Rightarrow> Inr (if neg then - int v else int v))"

text \<open>\<^verbatim>\<open>int(card.split('=')[1].split('/')[0].strip())\<close>\<close>

definition card_value :: "string \<Rightarrow> py_exception + int" where
  "card_value card' =
     (case split_on CHR ''='' card' of
        _ # v # _ \<Rightarrow>
          (case split_on CHR ''/'' v of
             w # _ \<Rightarrow> py_int (py_strip w)
           | [] \<Rightarrow> Inl IndexError)
      | _ \<Rightarrow> Inl IndexError)"

record fits_fields =
  naxis :: "int option"
  naxis1 :: "int option"
  bitpix :: "int option"

text \<open>
  The loop over the header records; a later record of the same key overwrites an
  earlier one, and the first value that is not an integer ends the loop with its
  exception.
  \<^verbatim>\<open>for card in header_cards:
      if card.startswith('NAXIS   ='):
          naxis = int(card.split('=')[1].split('/')[0].strip())
      elif card.startswith('NAXIS1  ='):
          naxis1 = int(...)
      elif card.startswith('BITPIX  ='):
          bitpix = int(...)\<close>
\<close>

fun scan_fields :: "string list \<Rightarrow> fits_fields \<Rightarrow> py_exception + fits_fields" where
  "scan_fields [] f = Inr f"
| "scan_fields (card' # cards) f =
     (if startswith card' ''NAXIS   ='' then
        (case card_value card' of Inl e \<Rightarrow> Inl e | Inr v \<Rightarrow> scan_fields cards (f\<lparr>naxis := Some v\<rparr>))
      else if startswith card' ''NAXIS1  ='' then
        (case card_value card' of Inl e \<Rightarrow> Inl e | Inr v \<Rightarrow> scan_fields cards (f\<lparr>naxis1 := Some v\<rparr>))
      else if startswith card' ''BITPIX  ='' then
        (case card_value card' of Inl e \<Rightarrow> Inl e | Inr v \<Rightarrow> scan_fields cards (f\<lparr>bitpix := Some v\<rparr>))
      else scan_fields cards f)"

text \<open>
  The element types \<open>'>f4'\<close>, \<open>'>f8'\<close> and \<open>'>i4'\<close>, chosen from \<open>BITPIX\<close>, and their
  sizes in bytes.
  \<^verbatim>\<open>if bitpix == -32: dtype = '>f4'
  elif bitpix == -64: dtype = '>f8'
  elif bitpix == 32: dtype = '>i4'
  else: dtype = '>f4'\<close>
\<close>

datatype dtype = F4 | F8 | I4

definition dtype_of :: "int option \<Rightarrow> dtype" where
  "dtype_of bp = (if bp = Some (- 32) then F4 else if bp = Some (- 64) then F8
                  else if bp = Some 32 then I4 else F4)"

fun itemsize :: "dtype \<Rightarrow> nat" where
  "itemsize F4 = 4" | "itemsize F8 = 8" | "itemsize I4 = 4"

text \<open>
  An array holds its elements as bit patterns: a 32-bit word for a \<open>float32\<close> or an
  \<open>int32\<close>, a 64-bit word for a \<open>float64\<close>.
\<close>

datatype ndarray = Float32 "32 word list" | Float64 "64 word list" | Int32 "32 word list"

fun array_len :: "ndarray \<Rightarrow> nat" where
  "array_len (Float32 ws) = length ws"
| "array_len (Float64 ws) = length ws"
| "array_len (Int32 ws) = length ws"

text \<open>
  \<open>np.frombuffer(buf, dtype)\<close>: the buffer is cut into elements of the item size, each
  read with its most significant byte first; a buffer whose length is not a multiple of
  the item size raises a ValueError, an empty buffer gives an empty array.
\<close>

definition be_nat :: "string \<Rightarrow> nat" where
  "be_nat bs = foldl (\<lambda>n b. 256 * n + of_char b) 0 bs"

function chunks :: "nat \<Rightarrow> 'a list \<Rightarrow> 'a list list" where
  "chunks k xs = (if k = 0 \<or> xs = [] then [] else take k xs # chunks k (drop k xs))"
  by pat_completeness auto
termination
  by (relation "measure (\<lambda>(k, xs). length xs)") auto

declare chunks.simps [simp del]

definition frombuffer :: "string \<Rightarrow> dtype \<Rightarrow> py_exception + ndarray" where
  "frombuffer buf dt =
     (if length buf mod itemsize dt \<noteq> 0 then Inl ValueError
      else Inr (case dt of
                  F4 \<Rightarrow> Float32 (map (\<lambda>b. word_of_nat (be_nat b)) (chunks 4 buf))
                | F8 \<Rightarrow> Float64 (map (\<lambda>b. word_of_nat (be_nat b)) (chunks 8 buf))
                | I4 \<Rightarrow> Int32 (map (\<lambda>b. word_of_nat (be_nat b)) (chunks 4 buf))))"

text \<open>
  \<^verbatim>\<open>if naxis1:
      data = data[:naxis1]\<close>
  A first-axis length that is absent or zero leaves the array as it is.
\<close>

definition trim :: "int option \<Rightarrow> 'a list \<Rightarrow> 'a list" where
  "trim n1 xs = (case n1 of None \<Rightarrow> xs | Some m \<Rightarrow> if m = 0 then xs else py_slice xs 0 m)"

fun trim_array :: "int option \<Rightarrow> ndarray \<Rightarrow> ndarray" where
  "trim_array n1 (Float32 ws) = Float32 (trim n1 ws)"
| "trim_array n1 (Float64 ws) = Float64 (trim n1 ws)"
| "trim_array n1 (Int32 ws) = Int32 (trim n1 ws)"

definition no_fields :: fits_fields where
  "no_fields = \<lparr>naxis = None, naxis1 = None, bitpix = None\<rparr>"

text \<open>
  The body of the \<open>try\<close> block after the header loop. \<open>f.seek\<close> may point past the end
  of the file; \<open>f.read()\<close> then returns no bytes. The printout of the data range takes
  \<open>np.min\<close> of the array, which raises a ValueError on an empty array.
\<close>

definition read_fits_body :: "string \<Rightarrow> string list \<Rightarrow> py_exception + ndarray" where
  "read_fits_body contents header_cards =
     (let header_size = length header_cards * 80;
          header_blocks = (header_size + 2879) div 2880;
          total_header_size = header_blocks * 2880
      in case scan_fields header_cards no_fields of
           Inl e \<Rightarrow> Inl e
         | Inr f \<Rightarrow>
             (case frombuffer (drop total_header_size contents) (dtype_of (bitpix f)) of
                Inl e \<Rightarrow> Inl e
              | Inr data \<Rightarrow>
                  (let trimmed = trim_array (naxis1 f) data
                   in if array_len trimmed = 0 then Inl ValueError else Inr trimmed)))"

text \<open>
  What \<open>read_fits_simple\<close> returns: \<open>None\<close> when the header loop never ends, otherwise
  Python's \<open>None\<close> (every exception of the \<open>try\<close> block is caught) or the array.
\<close>

datatype returned = PyNone | Array ndarray

definition read_fits_simple :: "string \<Rightarrow> returned option" where
  "read_fits_simple contents =
     (case read_cards contents 0 [] of
        None \<Rightarrow> None
      | Some header_cards \<Rightarrow>
          Some (case read_fits_body contents header_cards of
                  Inl e \<Rightarrow> PyNone
                | Inr data \<Rightarrow> Array data))"

section \<open>Writing a file\<close>

text \<open>
  The big-endian bytes of an array, most significant byte first: the inverse direction
  of the reader, used to state what a well-formed file is.
\<close>

fun be_bytes :: "nat \<Rightarrow> nat \<Rightarrow> string" where
  "be_bytes 0 v = []"
| "be_bytes (Suc k) v = be_bytes k (v div 256) @ [char_of (v mod 256)]"




section \<open>Auxiliary notions for the statements\<close>


definition is_field_card :: "string \<Rightarrow> bool" where
  "is_field_card c \<longleftrightarrow>
     startswith c ''NAXIS   ='' \<or> startswith c ''NAXIS1  ='' \<or> startswith c ''BITPIX  =''"

definition payload_of :: "string \<Rightarrow> string list \<Rightarrow> string" where
  "payload_of contents header_cards =
     drop ((length header_cards * 80 + 2879) div 2880 * 2880) contents"

text \<open>
  A stand-in for \<open>np.corrcoef\<close> on sample inputs: \<open>1\<close> for two equal patches, \<open>-1/2\<close>
  otherwise. These are the values the library returns on the patches of the sample
  runs below.
\<close>

definition sample_corrcoef :: "real list \<Rightarrow> real list \<Rightarrow> py_exception + real option" where
  "sample_corrcoef xs ys = Inr (Some (if xs = ys then 1 else - (1/2)))"

text \<open>A match record with correlation \<open>i / 100\<close>, for sample inputs.\<close>

definition sample_match :: "int \<Rightarrow> match_record" where
  "sample_match i = \<lparr>location1 = i, location2 = i + 50, correlation = real_of_int i / 100,
      separation_pixels = 50, separation_degrees = 90, match_patch_size = 10\<rparr>"

section \<open>Pairing at the upper boundary\<close>

lemma test_separations_bounds:
  assumes "0 < n" and "s \<in> set (test_separations n)"
  shows "0 \<le> s \<and> s < n"
  using assms unfolding test_separations_def by auto

text \<open>
  C1, as the specification states it, fails: with \<open>N = 4000\<close>, \<open>P = 200\<close>, the start
  \<open>3500\<close> and the quarter offset \<open>1000\<close> the sum \<open>4500\<close> exceeds \<open>N\<close>, and the second
  start is the wrapped index \<open>500 = 4500 - 4000\<close>, not the clamp value \<open>3800\<close>.
\<close>

theorem second_start_wraps_counterexample:
  "1000 \<in> set (test_separations 4000) \<and> (3500::int) < 4000 - 200 \<and> (3500::int) + 1000 > 4000
   \<and> second_start 4000 200 3500 1000 = (3500 + 1000) - 4000
   \<and> second_start 4000 200 3500 1000 \<noteq> 4000 - 200"
  by (simp add: test_separations_def second_start_def)

text \<open>
  C1, amended: for a sampled start (\<open>0 \<le> start1 < N - P\<close>) and each of the three
  candidate offsets, the second start is \<open>(start1 + offset) mod N\<close>: when
  \<open>start1 + offset\<close> reaches \<open>N\<close> it wraps to \<open>start1 + offset - N\<close> and is not clamped;
  it is clamped to \<open>N - P\<close> exactly when \<open>N - P < start1 + offset < N\<close>. In every case
  the second patch lies inside the array.
\<close>

theorem second_start_wrap_or_clamp:
  assumes "0 \<le> patch_size" and "0 \<le> start1" and "start1 < n - patch_size"
    and "separation \<in> set (test_separations n)"
  shows "second_start n patch_size start1 separation =
           (if n \<le> start1 + separation then start1 + separation - n
            else if n - patch_size < start1 + separation then n - patch_size
            else start1 + separation)
         \<and> 0 \<le> second_start n patch_size start1 separation
         \<and> second_start n patch_size start1 separation + patch_size \<le> n"
proof -
  from assms have n: "0 < n" by linarith
  from test_separations_bounds [OF n assms(4)]
  have s: "0 \<le> separation" "separation < n" by simp_all
  show ?thesis
  proof (cases "n \<le> start1 + separation")
    case True
    have "(start1 + separation) mod n = (start1 + separation - n) mod n"
      by (simp add: mod_diff_eq [symmetric])
    also have "\<dots> = start1 + separation - n"
      using True s assms by (intro mod_pos_pos_trivial) linarith+
    finally have m: "(start1 + separation) mod n = start1 + separation - n" .
    show ?thesis using True s assms unfolding second_start_def m Let_def by auto
  next
    case False
    then have m: "(start1 + separation) mod n = start1 + separation"
      using s assms by (intro mod_pos_pos_trivial) linarith+
    show ?thesis using False s assms unfolding second_start_def m Let_def by auto
  qed
qed

theorem second_start_wrap_or_clamp_witness:
  "second_start 4000 200 3700 2000 = 1700 \<and> second_start 4000 200 3700 1000 = 700
   \<and> second_start 4000 200 3700 3000 = 2700 \<and> second_start 4000 200 2900 1000 = 3800
   \<and> second_start 4000 200 100 1000 = 1100"
proof -
  have q: "1000 \<in> set (test_separations 4000)" "2000 \<in> set (test_separations 4000)"
    "3000 \<in> set (test_separations 4000)"
    by (simp_all add: test_separations_def)
  show ?thesis
    using second_start_wrap_or_clamp [of 200 3700 4000 2000]
      second_start_wrap_or_clamp [of 200 3700 4000 1000]
      second_start_wrap_or_clamp [of 200 3700 4000 3000]
      second_start_wrap_or_clamp [of 200 2900 4000 1000]
      second_start_wrap_or_clamp [of 200 100 4000 1000] q
    by simp
qed

section \<open>Offsets and their angles\<close>

lemma angle_bounds:
  fixes n k d :: real
  assumes "0 < n" and "k * n - 4 < 4 * d" and "4 * d \<le> k * n"
  shows "90 * k - 360 / n < 360 * d / n" and "360 * d / n \<le> 90 * k"
proof -
  have "90 * k - 360 / n = (90 * k * n - 360) / n"
    using assms(1) by (simp add: diff_divide_distrib)
  also have "\<dots> < 360 * d / n"
    using assms by (intro divide_strict_right_mono) linarith+
  finally show "90 * k - 360 / n < 360 * d / n" .
  have "360 * d / n \<le> (90 * k * n) / n"
    using assms by (intro divide_right_mono) linarith+
  then show "360 * d / n \<le> 90 * k"
    using assms(1) by simp
qed

text \<open>
  C10, as the specification states it, fails: an array of length \<open>6\<close> has the quarter
  offset \<open>6 div 4 = 1\<close>, whose angle is \<open>60\<close> degrees, thirty degrees away from \<open>90\<close>.
\<close>

theorem angular_sep_counterexample:
  "test_separations 6 = [1, 3, 4] \<and> angular_sep (test_separations 6 ! 0) 6 = 60
   \<and> angular_sep (test_separations 6 ! 2) 6 = 240"
  by (simp add: test_separations_def angular_sep_def)

text \<open>
  C10, amended: the three offsets are the floors of \<open>N/4\<close>, \<open>N/2\<close> and \<open>3N/4\<close> (each less
  than one index below the exact fraction), and the angles \<open>360 * offset / N\<close> lie below
  \<open>90\<close>, \<open>180\<close> and \<open>270\<close> degrees by less than \<open>360 / N\<close> degrees; they are exactly \<open>90\<close>,
  \<open>180\<close> and \<open>270\<close> when \<open>N\<close> is a multiple of four.
\<close>

theorem test_separations_angles:
  assumes "0 < n"
  shows "test_separations n = [\<lfloor>real_of_int n / 4\<rfloor>, \<lfloor>real_of_int n / 2\<rfloor>, \<lfloor>3 * real_of_int n / 4\<rfloor>]
    \<and> 90 - 360 / real_of_int n < angular_sep (test_separations n ! 0) n
    \<and> angular_sep (test_separations n ! 0) n \<le> 90
    \<and> 180 - 360 / real_of_int n < angular_sep (test_separations n ! 1) n
    \<and> angular_sep (test_separations n ! 1) n \<le> 180
    \<and> 270 - 360 / real_of_int n < angular_sep (test_separations n ! 2) n
    \<and> angular_sep (test_separations n ! 2) n \<le> 270
    \<and> (4 dvd n \<longrightarrow> map (\<lambda>s. angular_sep s n) (test_separations n) = [90, 180, 270])"
proof -
  have fl: "\<lfloor>real_of_int n / 4\<rfloor> = n div 4" "\<lfloor>real_of_int n / 2\<rfloor> = n div 2"
    "\<lfloor>3 * real_of_int n / 4\<rfloor> = 3 * n div 4"
    using floor_divide_of_int_eq [of n 4, where ?'a = real]
      floor_divide_of_int_eq [of n 2, where ?'a = real]
      floor_divide_of_int_eq [of "3 * n" 4, where ?'a = real]
    by simp_all
  have rn: "0 < real_of_int n" using assms by simp
  have b4: "n - 4 < 4 * (n div 4)" "4 * (n div 4) \<le> n" by presburger+
  have b2: "n - 2 < 2 * (n div 2)" "2 * (n div 2) \<le> n" by presburger+
  have b3: "3 * n - 4 < 4 * (3 * n div 4)" "4 * (3 * n div 4) \<le> 3 * n" by presburger+
  have r4: "real_of_int n - 4 < 4 * real_of_int (n div 4)" "4 * real_of_int (n div 4) \<le> real_of_int n"
    using b4 by linarith+
  have r2: "real_of_int n - 2 < 2 * real_of_int (n div 2)" "2 * real_of_int (n div 2) \<le> real_of_int n"
    using b2 by linarith+
  have r3: "3 * real_of_int n - 4 < 4 * real_of_int (3 * n div 4)"
    "4 * real_of_int (3 * n div 4) \<le> 3 * real_of_int n"
    using b3 by linarith+
  have a4: "90 - 360 / real_of_int n < angular_sep (n div 4) n" "angular_sep (n div 4) n \<le> 90"
    using angle_bounds [of "real_of_int n" 1 "real_of_int (n div 4)"] rn r4
    unfolding angular_sep_def by simp_all
  have a2: "180 - 360 / real_of_int n < angular_sep (n div 2) n" "angular_sep (n div 2) n \<le> 180"
    using angle_bounds [of "real_of_int n" 2 "real_of_int (n div 2)"] rn r2
    unfolding angular_sep_def by simp_all
  have a3: "270 - 360 / real_of_int n < angular_sep (3 * n div 4) n"
    "angular_sep (3 * n div 4) n \<le> 270"
    using angle_bounds [of "real_of_int n" 3 "real_of_int (3 * n div 4)"] rn r3
    unfolding angular_sep_def by simp_all
  have ex: "map (\<lambda>s. angular_sep s n) (test_separations n) = [90, 180, 270]" if "4 dvd n"
  proof -
    from that obtain k where k: "n = 4 * k" by (rule dvdE)
    with assms have "0 < k" by simp
    then show ?thesis unfolding k test_separations_def angular_sep_def by simp
  qed
  show ?thesis
    using fl a4 a2 a3 ex by (simp add: test_separations_def)
qed

theorem test_separations_angles_witness:
  "test_separations 4001 = [1000, 2000, 3000]
   \<and> angular_sep 1000 4001 < 90 \<and> 90 - 360 / 4001 < angular_sep 1000 4001
   \<and> map (\<lambda>s. angular_sep s 4000) (test_separations 4000) = [90, 180, 270]"
proof -
  have "angular_sep 1000 4001 < 90" by (simp add: angular_sep_def)
  then show ?thesis
    using test_separations_angles [of 4001] test_separations_angles [of 4000]
    by (simp add: test_separations_def)
qed

section \<open>A sample run\<close>

text \<open>
  The array \<open>0, 1, 2, 0, 1, 2\<close> with patch size \<open>3\<close> and one sample, under a stand-in
  sampler that returns the first \<open>k\<close> indices and the stand-in correlation function.
\<close>

lemma sample_patch_0: "py_slice [0, 1, 2, 0, 1, 2::real] 0 (0 + 3) = [0, 1, 2]"
  by (simp add: py_slice_def slice_bound_def)

lemma sample_patch_1: "py_slice [0, 1, 2, 0, 1, 2::real] 1 (1 + 3) = [1, 2, 0]"
  by (simp add: py_slice_def slice_bound_def)

lemma sample_patch_3: "py_slice [0, 1, 2, 0, 1, 2::real] 3 (3 + 3) = [0, 1, 2]"
  by (simp add: py_slice_def slice_bound_def)

lemma sample_second_starts:
  "second_start 6 3 0 1 = 1" "second_start 6 3 0 3 = 3" "second_start 6 3 0 4 = 3"
  by (simp_all add: second_start_def)

lemma sample_pair_quarter:
  "scan_pair sample_corrcoef [0, 1, 2, 0, 1, 2] 3 t 0 1 =
     (if ge_float (1/2) t
      then [\<lparr>location1 = 0, location2 = 1, correlation = - (1/2), separation_pixels = 1,
             separation_degrees = 60, match_patch_size = 3\<rparr>]
      else [])"
  using sample_patch_0 sample_patch_1 sample_second_starts
  by (simp add: scan_pair_def angular_sep_def sample_corrcoef_def)

lemma sample_pair_half:
  "scan_pair sample_corrcoef [0, 1, 2, 0, 1, 2] 3 t 0 3 =
     (if ge_float 1 t
      then [\<lparr>location1 = 0, location2 = 3, correlation = 1, separation_pixels = 3,
             separation_degrees = 180, match_patch_size = 3\<rparr>]
      else [])"
  using sample_patch_0 sample_patch_3 sample_second_starts
  by (simp add: scan_pair_def angular_sep_def sample_corrcoef_def)

lemma sample_pair_three_quarter:
  "scan_pair sample_corrcoef [0, 1, 2, 0, 1, 2] 3 t 0 4 =
     (if ge_float 1 t
      then [\<lparr>location1 = 0, location2 = 3, correlation = 1, separation_pixels = 4,
             separation_degrees = 240, match_patch_size = 3\<rparr>]
      else [])"
  using sample_patch_0 sample_patch_3 sample_second_starts
  by (simp add: scan_pair_def angular_sep_def sample_corrcoef_def)

lemma sample_run_pairs:
  "analyze_cmb_correlations (\<lambda>s g. s) (\<lambda>g a k. Inr (map int [0 ..< nat k])) sample_corrcoef
     (0::int) [Fin 0, Fin 1, Fin 2, Fin 0, Fin 1, Fin 2] 3 1 t
   = Inr (scan_pair sample_corrcoef [0, 1, 2, 0, 1, 2] 3 t 0 1
          @ scan_pair sample_corrcoef [0, 1, 2, 0, 1, 2] 3 t 0 3
          @ scan_pair sample_corrcoef [0, 1, 2, 0, 1, 2] 3 t 0 4)"
  by (simp add: analyze_cmb_correlations_def sample_starts_def test_separations_def Let_def)

lemma sample_run:
  "analyze_cmb_correlations (\<lambda>s g. s) (\<lambda>g a k. Inr (map int [0 ..< nat k])) sample_corrcoef
     (0::int) [Fin 0, Fin 1, Fin 2, Fin 0, Fin 1, Fin 2] 3 1 (Fin (1/10))
   = Inr [\<lparr>location1 = 0, location2 = 1, correlation = - (1/2), separation_pixels = 1,
            separation_degrees = 60, match_patch_size = 3\<rparr>,
          \<lparr>location1 = 0, location2 = 3, correlation = 1, separation_pixels = 3,
            separation_degrees = 180, match_patch_size = 3\<rparr>,
          \<lparr>location1 = 0, location2 = 3, correlation = 1, separation_pixels = 4,
            separation_degrees = 240, match_patch_size = 3\<rparr>]"
  by (simp only: sample_run_pairs sample_pair_quarter sample_pair_half
      sample_pair_three_quarter) simp

section \<open>The patch sampler\<close>

lemma concrete_choice_contract:
  "choice_contract (\<lambda>(g::int) a k. Inr (map int [0 ..< nat k]) :: py_exception + int list)"
  unfolding choice_contract_def by (auto simp: distinct_map inj_on_def)

text \<open>
  C2: with a sampler that meets the library's contract, a patch size \<open>P > 0\<close>, an array
  length \<open>N \<ge> 2P\<close> and a sample count \<open>K \<ge> 0\<close>, the code draws \<open>min(K, N - P)\<close> distinct
  starts from \<open>0, ..., N - P - 1\<close>: the count is clamped and the call does not fail, but
  the start \<open>N - P\<close>, the last one whose patch fits the array, is never drawn.
\<close>

theorem sample_starts_exclude_last:
  assumes "choice_contract choice" and "0 < patch_size" and "2 * patch_size \<le> n"
    and "0 \<le> n_samples"
  shows "\<exists>xs. sample_starts seed choice g n patch_size n_samples = Inr xs
           \<and> int (length xs) = min n_samples (n - patch_size) \<and> distinct xs
           \<and> set xs \<subseteq> {0 ..< n - patch_size} \<and> n - patch_size \<notin> set xs"
proof -
  let ?a = "n - patch_size"
  let ?k = "min n_samples ?a"
  have "0 < ?a \<and> 0 \<le> ?k \<and> ?k \<le> ?a" using assms by auto
  with assms(1) obtain xs where xs: "choice (seed 42 g) ?a ?k = Inr xs" "int (length xs) = ?k"
    "distinct xs" "set xs \<subseteq> {0 ..< ?a}"
    unfolding choice_contract_def by blast
  then show ?thesis unfolding sample_starts_def Let_def by auto
qed

theorem sample_starts_exclude_last_witness:
  "sample_starts (\<lambda>s g. s) (\<lambda>g a k. Inr (map int [0 ..< nat k])) (0::int) 4 2 3 = Inr [0, 1]
   \<and> (4::int) - 2 \<notin> set [0, 1]"
  using sample_starts_exclude_last [OF concrete_choice_contract, of 2 4 3 "\<lambda>s g. s" 0]
  by (auto simp: sample_starts_def upt_conv_Cons)

section \<open>Determinism\<close>

text \<open>
  C6: the search reseeds the generator before it samples, so for a fixed input array,
  patch size, sample count and threshold two runs give the same ordered list of matches,
  whatever state the generator was in before each run; the ranked lists agree as well.
\<close>

theorem analysis_deterministic:
  assumes "seed_contract seed"
  shows "analyze_cmb_correlations seed choice corrcoef g cmb_data patch_size n_samples
           min_correlation
         = analyze_cmb_correlations seed choice corrcoef g' cmb_data patch_size n_samples
             min_correlation
       \<and> map_sum id rank_matches
           (analyze_cmb_correlations seed choice corrcoef g cmb_data patch_size n_samples
              min_correlation)
         = map_sum id rank_matches
           (analyze_cmb_correlations seed choice corrcoef g' cmb_data patch_size n_samples
              min_correlation)"
proof -
  from assms have "seed 42 g = seed 42 g'" unfolding seed_contract_def by blast
  then have ss: "sample_starts seed choice g n patch_size n_samples
             = sample_starts seed choice g' n patch_size n_samples" for n
    unfolding sample_starts_def by simp
  have "analyze_cmb_correlations seed choice corrcoef g cmb_data patch_size n_samples
          min_correlation
        = analyze_cmb_correlations seed choice corrcoef g' cmb_data patch_size n_samples
            min_correlation"
    by (simp only: analyze_cmb_correlations_def ss)
  then show ?thesis by simp
qed

theorem analysis_deterministic_witness:
  "analyze_cmb_correlations (\<lambda>s g. s) (\<lambda>g a k. Inr (map int [0 ..< nat k])) sample_corrcoef
       (7::int) [Fin 0, Fin 1, Fin 2, Fin 0, Fin 1, Fin 2] 3 1 (Fin (1/10))
   = Inr [\<lparr>location1 = 0, location2 = 1, correlation = - (1/2), separation_pixels = 1,
            separation_degrees = 60, match_patch_size = 3\<rparr>,
          \<lparr>location1 = 0, location2 = 3, correlation = 1, separation_pixels = 3,
            separation_degrees = 180, match_patch_size = 3\<rparr>,
          \<lparr>location1 = 0, location2 = 3, correlation = 1, separation_pixels = 4,
            separation_degrees = 240, match_patch_size = 3\<rparr>]"
proof -
  have sc: "seed_contract (\<lambda>s (g::int). s)" by (simp add: seed_contract_def)
  show ?thesis
    using analysis_deterministic [OF sc, of "\<lambda>g a k. Inr (map int [0 ..< nat k])"
        sample_corrcoef 7 "[Fin 0, Fin 1, Fin 2, Fin 0, Fin 1, Fin 2]" 3 1 "Fin (1/10)" 0]
      sample_run
    by simp
qed

section \<open>Threshold monotonicity\<close>

lemma ge_float_mono: "lt_float t1 t2 \<Longrightarrow> ge_float r t2 \<Longrightarrow> ge_float r t1"
  by (cases t1; cases t2) auto

lemma scan_pair_filter:
  assumes "lt_float t1 t2"
  shows "scan_pair corrcoef v p t2 s sep
         = filter (\<lambda>m. ge_float \<bar>correlation m\<bar> t2) (scan_pair corrcoef v p t1 s sep)"
  using ge_float_mono [OF assms]
  unfolding scan_pair_def Let_def by (auto split: sum.splits option.splits)

lemma filter_concat_map: "filter P (concat (map f xs)) = concat (map (\<lambda>x. filter P (f x)) xs)"
  by (induction xs) auto

text \<open>
  C7: with everything else fixed, raising the threshold from \<open>t1\<close> to \<open>t2 > t1\<close> keeps
  exactly the records of the first run whose magnitude reaches \<open>t2\<close>: the matches at \<open>t2\<close>
  are a subset of those at \<open>t1\<close>, and there are no more of them.
\<close>

theorem threshold_monotone:
  assumes "lt_float t1 t2"
    and "analyze_cmb_correlations seed choice corrcoef g cmb_data patch_size n_samples t1
         = Inr m1"
  shows "\<exists>m2. analyze_cmb_correlations seed choice corrcoef g cmb_data patch_size n_samples t2
                = Inr m2
           \<and> set m2 \<subseteq> set m1 \<and> length m2 \<le> length m1
           \<and> m2 = filter (\<lambda>m. ge_float \<bar>correlation m\<bar> t2) m1"
proof -
  let ?P = "\<lambda>m. ge_float \<bar>correlation m\<bar> t2"
  have "analyze_cmb_correlations seed choice corrcoef g cmb_data patch_size n_samples t2
        = Inr (filter ?P m1)"
    using assms(2) unfolding analyze_cmb_correlations_def Let_def
    by (auto split: if_splits sum.splits
        simp: filter_concat_map scan_pair_filter [OF assms(1), symmetric])
  then show ?thesis by auto
qed

theorem threshold_monotone_witness:
  "lt_float (Fin (1/10)) (Fin (6/10))
   \<and> analyze_cmb_correlations (\<lambda>s g. s) (\<lambda>g a k. Inr (map int [0 ..< nat k])) sample_corrcoef
       (0::int) [Fin 0, Fin 1, Fin 2, Fin 0, Fin 1, Fin 2] 3 1 (Fin (6/10))
     = Inr [\<lparr>location1 = 0, location2 = 3, correlation = 1, separation_pixels = 3,
              separation_degrees = 180, match_patch_size = 3\<rparr>,
            \<lparr>location1 = 0, location2 = 3, correlation = 1, separation_pixels = 4,
              separation_degrees = 240, match_patch_size = 3\<rparr>]"
proof -
  have lt: "lt_float (Fin (1/10)) (Fin (6/10))" by simp
  show ?thesis
    using threshold_monotone [OF lt sample_run] by simp
qed

section \<open>Degenerate patches\<close>

text \<open>
  C8: the search has no test of the variance of a patch. A pair is left out only when
  the library call raises, returns NaN, or returns a magnitude below the threshold; as
  soon as it returns a number that reaches the threshold, a record is appended. For
  constant patches the library does return numbers: it computes in 64-bit floating
  point, where the mean of three values \<open>0.1\<close> is \<open>0.10000000000000002\<close>, so the
  deviations are not zero and the correlation of two such patches comes out as \<open>1.0\<close>
  instead of NaN. The sample after the theorem is this input, with the library's value
  supplied by the stand-in.
\<close>

theorem constant_patch_record_appended:
  assumes "valid_data \<noteq> []"
    and "corrcoef (py_slice valid_data start1 (start1 + patch_size))
           (py_slice valid_data
              (second_start (int (length valid_data)) patch_size start1 separation)
              (second_start (int (length valid_data)) patch_size start1 separation + patch_size))
         = Inr (Some c)"
    and "ge_float \<bar>c\<bar> min_correlation"
  shows "scan_pair corrcoef valid_data patch_size min_correlation start1 separation
         = [\<lparr>location1 = start1,
              location2 = second_start (int (length valid_data)) patch_size start1 separation,
              correlation = c,
              separation_pixels = separation,
              separation_degrees = angular_sep separation (int (length valid_data)),
              match_patch_size = patch_size\<rparr>]"
  using assms(2,3) unfolding scan_pair_def Let_def by simp

text \<open>
  Six values \<open>0.1\<close> (the double nearest to one tenth, written as the fraction it is),
  patch size \<open>3\<close>, start \<open>0\<close> and the quarter offset \<open>1\<close>: both patches are constant, and
  a record of correlation \<open>1\<close> is appended even at the threshold \<open>1\<close>.
\<close>

theorem constant_patch_record_appended_witness:
  "py_slice (replicate 6 (3602879701896397 / 36028797018963968 :: real)) 0 (0 + 3)
     = replicate 3 (3602879701896397 / 36028797018963968)
   \<and> py_slice (replicate 6 (3602879701896397 / 36028797018963968 :: real)) 1 (1 + 3)
     = replicate 3 (3602879701896397 / 36028797018963968)
   \<and> scan_pair sample_corrcoef (replicate 6 (3602879701896397 / 36028797018963968)) 3 (Fin 1)
       0 1
     = [\<lparr>location1 = 0, location2 = 1, correlation = 1, separation_pixels = 1,
          separation_degrees = 60, match_patch_size = 3\<rparr>]"
proof -
  let ?d = "3602879701896397 / 36028797018963968 :: real"
  have p0: "py_slice (replicate 6 ?d) 0 (0 + 3) = replicate 3 ?d"
    by (simp add: py_slice_def slice_bound_def)
  have p1: "py_slice (replicate 6 ?d) 1 (1 + 3) = replicate 3 ?d"
    by (simp add: py_slice_def slice_bound_def)
  have s2: "second_start (int (length (replicate 6 ?d))) 3 0 1 = 1"
    by (simp add: second_start_def)
  have cc: "sample_corrcoef (py_slice (replicate 6 ?d) 0 (0 + 3))
      (py_slice (replicate 6 ?d) (second_start (int (length (replicate 6 ?d))) 3 0 1)
         (second_start (int (length (replicate 6 ?d))) 3 0 1 + 3)) = Inr (Some 1)"
    unfolding s2 p0 p1 by (simp add: sample_corrcoef_def)
  have ne: "replicate 6 ?d \<noteq> []" by simp
  have ge: "ge_float \<bar>1\<bar> (Fin 1)" by simp
  from constant_patch_record_appended [of "replicate 6 ?d" sample_corrcoef 0 3 1 1 "Fin 1",
      OF ne cc ge]
  have "scan_pair sample_corrcoef (replicate 6 ?d) 3 (Fin 1) 0 1
     = [\<lparr>location1 = 0, location2 = 1, correlation = 1, separation_pixels = 1,
          separation_degrees = 60, match_patch_size = 3\<rparr>]"
    unfolding s2 by (simp add: angular_sep_def)
  with p0 p1 show ?thesis by blast
qed

section \<open>The significance test\<close>

lemma top_split:
  "mset found = mset (take k (rank_matches found)) + mset (drop k (rank_matches found))"
proof -
  have "mset (rank_matches found) = mset found" unfolding rank_matches_def by simp
  moreover have "mset (take k (rank_matches found) @ drop k (rank_matches found))
      = mset (rank_matches found)" by simp
  ultimately show ?thesis by (simp only: mset_append [symmetric])
qed

lemma top_dominates:
  assumes "a \<in> set (take k (rank_matches found))" and "b \<in> set (drop k (rank_matches found))"
  shows "\<bar>correlation b\<bar> \<le> \<bar>correlation a\<bar>"
proof -
  let ?r = "rank_matches found"
  have "sorted (map (\<lambda>x. - \<bar>correlation x\<bar>) ?r)" unfolding rank_matches_def by simp
  then have "sorted (map (\<lambda>x. - \<bar>correlation x\<bar>) (take k ?r) @ map (\<lambda>x. - \<bar>correlation x\<bar>) (drop k ?r))"
    by (simp only: map_append [symmetric] append_take_drop_id)
  then have "\<forall>x\<in>set (take k ?r). \<forall>y\<in>set (drop k ?r). - \<bar>correlation x\<bar> \<le> - \<bar>correlation y\<bar>"
    by (auto simp: sorted_append)
  with assms show ?thesis by auto
qed

text \<open>
  C9: the report keeps the first 20 records of the ranking by descending magnitude, and
  \<open>statistical_analysis\<close> hands the library's one-sample t-test the magnitudes of
  exactly these records, with null mean \<open>0\<close>, returning its statistic and p-value. The
  sample has \<open>min(20, n)\<close> of the \<open>n\<close> matches, and every match left out is no larger in
  magnitude than every match kept.
\<close>

theorem significance_on_top_matches:
  assumes "main_results np_mean cmb_file n_data found = Some res" and "0 < n_data"
  shows "\<exists>st. statistical_analysis ttest_1samp res = Inr st
    \<and> (t_stat st, p_value st) = ttest_1samp (map (\<lambda>m. \<bar>correlation m\<bar>) (top_matches res)) 0
    \<and> top_matches res = take 20 (rank_matches found)
    \<and> length (top_matches res) = min 20 (length found)
    \<and> mset (top_matches res) \<subseteq># mset found
    \<and> sorted (map (\<lambda>m. - \<bar>correlation m\<bar>) (top_matches res))
    \<and> (\<forall>a\<in>set (top_matches res). \<forall>b\<in>#(mset found - mset (top_matches res)).
          \<bar>correlation b\<bar> \<le> \<bar>correlation a\<bar>)"
proof -
  from assms have top: "top_matches res = take 20 (rank_matches found)"
    and dp: "data_points res = n_data"
    unfolding main_results_def Let_def by (auto split: if_splits)
  obtain t p where tp: "ttest_1samp (map (\<lambda>m. \<bar>correlation m\<bar>) (top_matches res)) 0 = (t, p)"
    by (cases "ttest_1samp (map (\<lambda>m. \<bar>correlation m\<bar>) (top_matches res)) 0")
  have "\<exists>st. statistical_analysis ttest_1samp res = Inr st \<and> t_stat st = t \<and> p_value st = p"
    using dp assms(2) tp unfolding statistical_analysis_def Let_def
    by (simp add: comp_def)
  then obtain st where st: "statistical_analysis ttest_1samp res = Inr st"
    "(t_stat st, p_value st) = ttest_1samp (map (\<lambda>m. \<bar>correlation m\<bar>) (top_matches res)) 0"
    using tp by auto
  have len: "length (top_matches res) = min 20 (length found)"
    unfolding top rank_matches_def by (simp add: min.commute)
  have sub: "mset (top_matches res) \<subseteq># mset found"
    unfolding top using top_split [of found 20] by simp
  have rest: "mset found - mset (top_matches res) = mset (drop 20 (rank_matches found))"
    unfolding top using top_split [of found 20] by simp
  have srt: "sorted (map (\<lambda>m. - \<bar>correlation m\<bar>) (top_matches res))"
    unfolding top rank_matches_def by (simp add: take_map [symmetric])
  have dom: "\<forall>a\<in>set (top_matches res). \<forall>b\<in>#(mset found - mset (top_matches res)).
          \<bar>correlation b\<bar> \<le> \<bar>correlation a\<bar>"
    unfolding rest unfolding top using top_dominates [of _ 20 found] by auto
  from st top len sub srt dom show ?thesis by blast
qed

lemma sample_match_sel [simp]: "correlation (sample_match i) = real_of_int i / 100"
  "location1 (sample_match i) = i"
  by (simp_all add: sample_match_def)

lemma sample_ranking: "rank_matches (map sample_match [1..22]) = map sample_match (rev [1..22])"
  unfolding rank_matches_def by (simp add: upto_rec1)

theorem significance_on_top_matches_witness:
  "map location1
     (top_matches (the (main_results (\<lambda>xs. sum_list xs / real (length xs)) ''map.fits'' 100
        (map sample_match [1..22]))))
     = [22, 21, 20, 19, 18, 17, 16, 15, 14, 13, 12, 11, 10, 9, 8, 7, 6, 5, 4, 3]
   \<and> map_sum id (\<lambda>st. (t_stat st, p_value st))
        (statistical_analysis (\<lambda>xs mu. (Fin (sum_list xs), Fin (real (length xs))))
           (the (main_results (\<lambda>xs. sum_list xs / real (length xs)) ''map.fits'' 100
              (map sample_match [1..22]))))
     = Inr (Fin (5/2), Fin 20)"
proof -
  have ne: "map sample_match [1..22] \<noteq> []" by (simp add: upto_rec1)
  then obtain res where res: "main_results (\<lambda>xs. sum_list xs / real (length xs)) ''map.fits'' 100
      (map sample_match [1..22]) = Some res"
    unfolding main_results_def Let_def by simp
  from significance_on_top_matches [OF res, of "\<lambda>xs mu. (Fin (sum_list xs), Fin (real (length xs)))"]
  obtain st where st: "statistical_analysis (\<lambda>xs mu. (Fin (sum_list xs), Fin (real (length xs)))) res
      = Inr st"
    "(t_stat st, p_value st) = (Fin (sum_list (map (\<lambda>m. \<bar>correlation m\<bar>) (top_matches res))),
        Fin (real (length (top_matches res))))"
    "top_matches res = take 20 (rank_matches (map sample_match [1..22]))"
    by auto
  show ?thesis unfolding res option.sel st(1) using st(2) unfolding st(3) sample_ranking
    by (simp add: upto_rec1)
qed

section \<open>The header loop\<close>

lemma read_cards_found_end:
  assumes "read_cards contents pos acc = Some r"
  shows "\<exists>k. startswith (ascii_ignore (take 80 (drop (pos + 80 * k) contents))) ''END''"
proof (rule read_cards.raw_induct
    [where P = "\<lambda>c p a r. \<exists>k. startswith (ascii_ignore (take 80 (drop (p + 80 * k) c))) ''END''",
      OF _ assms])
  fix rc :: "string \<Rightarrow> nat \<Rightarrow> string list \<Rightarrow> string list option"
  fix c p a r
  assume IH: "\<And>c p a r. rc c p a = Some r \<Longrightarrow>
      \<exists>k. startswith (ascii_ignore (take 80 (drop (p + 80 * k) c))) ''END''"
  assume step: "(let raw = take 80 (drop p c); card' = ascii_ignore raw; cards = a @ [card']
      in if startswith card' ''END'' then Some cards else rc c (p + length raw) cards) = Some r"
  let ?raw = "take 80 (drop p c)"
  show "\<exists>k. startswith (ascii_ignore (take 80 (drop (p + 80 * k) c))) ''END''"
  proof (cases "startswith (ascii_ignore ?raw) ''END''")
    case True
    then have "startswith (ascii_ignore (take 80 (drop (p + 80 * 0) c))) ''END''" by simp
    then show ?thesis by blast
  next
    case False
    with step have "rc c (p + length ?raw) (a @ [ascii_ignore ?raw]) = Some r"
      by (simp add: Let_def)
    from IH [OF this] obtain k where
      k: "startswith (ascii_ignore (take 80 (drop (p + length ?raw + 80 * k) c))) ''END''"
      by blast
    then have ne: "drop (p + length ?raw + 80 * k) c \<noteq> []"
      by (auto simp: startswith_def ascii_ignore_def)
    then have "p + length ?raw + 80 * k < length c" by simp
    then have "length ?raw = 80" by simp
    with k have "startswith (ascii_ignore (take 80 (drop (p + 80 * Suc k) c))) ''END''"
      by (simp add: add.assoc add.commute add.left_commute)
    then show ?thesis by blast
  qed
qed

lemma read_cards_no_end:
  assumes "\<And>k. \<not> startswith (ascii_ignore (take 80 (drop (pos + 80 * k) contents))) ''END''"
  shows "read_cards contents pos acc = None"
proof (cases "read_cards contents pos acc")
  case None then show ?thesis .
next
  case (Some r)
  from read_cards_found_end [OF this] assms show ?thesis by blast
qed

lemma read_cards_returns:
  assumes "startswith (ascii_ignore (take 80 (drop (pos + 80 * k) contents))) ''END''"
  shows "\<exists>r. read_cards contents pos acc = Some r"
  using assms
proof (induction k arbitrary: pos acc)
  case 0
  then show ?case by (subst read_cards.simps) simp
next
  case (Suc k)
  let ?raw = "take 80 (drop pos contents)"
  show ?case
  proof (cases "startswith (ascii_ignore ?raw) ''END''")
    case True
    then show ?thesis by (subst read_cards.simps) simp
  next
    case False
    from Suc.prems have "drop (pos + 80 * Suc k) contents \<noteq> []"
      by (auto simp: startswith_def ascii_ignore_def)
    then have "pos + 80 * Suc k < length contents" by simp
    then have full: "length ?raw = 80" by simp
    have "startswith (ascii_ignore (take 80 (drop ((pos + 80) + 80 * k) contents))) ''END''"
      using Suc.prems by (simp add: add.assoc)
    from Suc.IH [OF this, of "acc @ [ascii_ignore ?raw]"]
    obtain r where "read_cards contents (pos + 80) (acc @ [ascii_ignore ?raw]) = Some r" by blast
    then show ?thesis using False full by (subst read_cards.simps) (simp add: Let_def)
  qed
qed

text \<open>
  C4: the header loop has no test for the end of the file. It returns exactly when some
  80-byte record at an offset that is a multiple of 80 begins with \<open>END\<close> (after the
  bytes above 127 are dropped). On a file without such a record every read past the end
  returns no bytes, the empty record does not begin with \<open>END\<close>, and the loop goes on
  for ever: the reader returns nothing, neither an array nor \<open>None\<close>. The empty file
  and a file holding a single short header record are two such inputs.
\<close>

theorem read_fits_simple_without_end:
  "(read_fits_simple contents = None \<longleftrightarrow>
      (\<forall>k. \<not> startswith (ascii_ignore (take 80 (drop (80 * k) contents))) ''END''))
   \<and> read_fits_simple [] = None
   \<and> read_fits_simple ''SIMPLE  =                    T'' = None"
proof -
  have iff: "read_cards c 0 [] = None \<longleftrightarrow>
      (\<forall>k. \<not> startswith (ascii_ignore (take 80 (drop (80 * k) c))) ''END'')" for c
  proof
    assume n: "read_cards c 0 [] = None"
    show "\<forall>k. \<not> startswith (ascii_ignore (take 80 (drop (80 * k) c))) ''END''"
    proof
      fix k
      show "\<not> startswith (ascii_ignore (take 80 (drop (80 * k) c))) ''END''"
        using read_cards_returns [of 0 k c "[]"] n by auto
    qed
  next
    assume "\<forall>k. \<not> startswith (ascii_ignore (take 80 (drop (80 * k) c))) ''END''"
    then show "read_cards c 0 [] = None"
      by (intro read_cards_no_end) simp
  qed
  have rf: "read_fits_simple c = None \<longleftrightarrow> read_cards c 0 [] = None" for c
    by (simp add: read_fits_simple_def split: option.splits)
  have a: "\<forall>k. \<not> startswith (ascii_ignore (take 80 (drop (80 * k) []))) ''END''"
    by (simp add: startswith_def ascii_ignore_def)
  have b: "\<forall>k. \<not> startswith (ascii_ignore (take 80 (drop (80 * k) ''SIMPLE  =                    T''))) ''END''"
  proof
    fix k :: nat
    show "\<not> startswith (ascii_ignore (take 80 (drop (80 * k) ''SIMPLE  =                    T''))) ''END''"
      by (cases k) (simp_all add: startswith_def ascii_ignore_def)
  qed
  from a b show ?thesis unfolding rf iff by blast
qed

lemma read_cards_header:
  assumes "\<forall>c\<in>set cs. length c = 80 \<and> \<not> startswith (ascii_ignore c) ''END''"
    and "startswith (ascii_ignore (take 80 rest)) ''END''"
  shows "read_cards (pre @ concat cs @ rest) (length pre) acc
         = Some (acc @ map ascii_ignore cs @ [ascii_ignore (take 80 rest)])"
  using assms(1)
proof (induction cs arbitrary: pre acc)
  case Nil
  show ?case using assms(2) by (subst read_cards.simps) simp
next
  case (Cons c cs)
  then have c: "length c = 80" "\<not> startswith (ascii_ignore c) ''END''" by simp_all
  have "read_cards (pre @ concat (c # cs) @ rest) (length pre) acc
        = read_cards ((pre @ c) @ concat cs @ rest) (length (pre @ c)) (acc @ [ascii_ignore c])"
    using c by (subst read_cards.simps) simp
  also have "\<dots> = Some ((acc @ [ascii_ignore c]) @ map ascii_ignore cs @ [ascii_ignore (take 80 rest)])"
    using Cons.prems by (intro Cons.IH) simp
  finally show ?case by simp
qed

section \<open>Decoding the payload\<close>

lemma length_be_bytes [simp]: "length (be_bytes k v) = k"
  by (induction k arbitrary: v) auto






lemma length_chunks: "0 < k \<Longrightarrow> length xs mod k = 0 \<Longrightarrow> length (chunks k xs) = length xs div k"
proof (induction k xs rule: chunks.induct)
  case (1 k xs)
  show ?case
  proof (cases "xs = []")
    case True then show ?thesis by (subst chunks.simps) simp
  next
    case False
    from 1(2,3) False have kl: "k \<le> length xs"
      by (metis dvd_imp_le length_greater_0_conv mod_0_imp_dvd)
    then have m: "length (drop k xs) mod k = 0" using 1(3) le_mod_geq [of k "length xs"] by simp
    have "length (chunks k xs) = Suc (length (chunks k (drop k xs)))"
      using 1(2) False by (subst chunks.simps) simp
    also have "\<dots> = Suc (length (drop k xs) div k)"
      using 1(1) [OF _ 1(2) m] 1(2) False by simp
    also have "\<dots> = length xs div k"
      using kl 1(2) le_div_geq [of k "length xs"] by simp
    finally show ?thesis .
  qed
qed







section \<open>Reading back a well-formed file\<close>








section \<open>When the reader fails\<close>

lemma scan_fields_fails_iff:
  "isl (scan_fields cards f) \<longleftrightarrow> (\<exists>c\<in>set cards. is_field_card c \<and> isl (card_value c))"
  by (induction cards arbitrary: f) (auto simp: is_field_card_def split: sum.splits)

lemma length_trim_zero:
  "length (trim n1 xs) = 0 \<longleftrightarrow>
     length xs = 0 \<or> (\<exists>m. n1 = Some m \<and> m < 0 \<and> int (length xs) \<le> - m)"
  by (cases n1) (auto simp: trim_def py_slice_def slice_bound_def min_def)

lemma frombuffer_Inl_iff: "isl (frombuffer buf dt) \<longleftrightarrow> length buf mod itemsize dt \<noteq> 0"
  by (simp add: frombuffer_def)

lemma itemsize_pos: "0 < itemsize dt"
  by (cases dt) simp_all

lemma trimmed_empty_iff:
  assumes "frombuffer buf dt = Inr a"
  shows "array_len (trim_array n1 a) = 0 \<longleftrightarrow>
           length buf < itemsize dt
         \<or> (\<exists>m. n1 = Some m \<and> m < 0 \<and> int (length buf div itemsize dt) \<le> - m)"
proof -
  from assms have md: "length buf mod itemsize dt = 0"
    by (auto simp: frombuffer_def split: if_splits)
  have small: "length buf < itemsize dt \<longleftrightarrow> length buf div itemsize dt = 0"
    using itemsize_pos [of dt] by (simp add: div_eq_0_iff)
  have ln: "array_len a = length buf div itemsize dt"
    using assms md itemsize_pos [of dt]
    by (cases dt) (auto simp: frombuffer_def length_chunks split: if_splits)
  have "array_len (trim_array n1 a) = 0 \<longleftrightarrow>
          array_len a = 0 \<or> (\<exists>m. n1 = Some m \<and> m < 0 \<and> int (array_len a) \<le> - m)"
    by (cases a) (simp_all only: trim_array.simps array_len.simps length_trim_zero)
  then show ?thesis unfolding ln small by simp
qed

text \<open>
  C3, as the specification states it, fails: a file with an \<open>END\<close> record, no field to
  parse and five payload bytes, enough for one 4-byte element, is none of the three
  listed cases, and yet the reader returns \<open>None\<close>, because the payload length is not a
  multiple of the element size.
\<close>

theorem read_fits_misaligned_payload_counterexample:
  "read_cards (''END                                                                             '' @ replicate 2800 CHR '' '' @ ''abcde'') 0 [] = Some [''END                                                                             '']
   \<and> scan_fields [''END                                                                             ''] no_fields = Inr no_fields
   \<and> payload_of (''END                                                                             '' @ replicate 2800 CHR '' '' @ ''abcde'') [''END                                                                             ''] = ''abcde''
   \<and> itemsize (dtype_of (bitpix no_fields)) = 4
   \<and> read_fits_simple (''END                                                                             '' @ replicate 2800 CHR '' '' @ ''abcde'') = Some PyNone"
proof -
  define pad where "pad = replicate 2800 CHR '' ''"
  have lp: "length pad = 2800" unfolding pad_def by (simp only: length_replicate)
  have ne: "startswith (ascii_ignore (take 80 (''END                                                                             '' @ pad @ ''abcde''))) ''END''"
    by (simp add: startswith_def ascii_ignore_def)
  have tk: "take 80 (''END                                                                             '' @ pad @ ''abcde'') = ''END                                                                             ''" by simp
  have hdr: "read_cards (''END                                                                             '' @ pad @ ''abcde'') 0 [] = Some [''END                                                                             '']"
    using read_cards_header [OF _ ne, of "[]" "[]" "[]"] unfolding tk
    by (simp add: ascii_ignore_def)
  have sf: "scan_fields [''END                                                                             ''] no_fields = Inr no_fields"
    by (simp add: startswith_def)
  have l: "length (''END                                                                             '' @ pad) = 2880" by (simp add: lp)
  have "drop (length (''END                                                                             '' @ pad)) ((''END                                                                             '' @ pad) @ ''abcde'') = ''abcde''"
    by (metis append_eq_conv_conj)
  then have "drop 2880 (''END                                                                             '' @ pad @ ''abcde'') = ''abcde''"
    unfolding l by simp
  then have pl: "payload_of (''END                                                                             '' @ pad @ ''abcde'') [''END                                                                             ''] = ''abcde''"
    by (simp add: payload_of_def)
  have sz: "itemsize (dtype_of (bitpix no_fields)) = 4"
    by (simp add: no_fields_def dtype_of_def)
  have fb: "frombuffer ''abcde'' F4 = Inl ValueError" by (simp add: frombuffer_def)
  have "read_fits_body (''END                                                                             '' @ pad @ ''abcde'') [''END                                                                             ''] = Inl ValueError"
    using sf pl fb unfolding read_fits_body_def payload_of_def
    by (simp add: no_fields_def dtype_of_def)
  with hdr have rd: "read_fits_simple (''END                                                                             '' @ pad @ ''abcde'') = Some PyNone"
    by (simp add: read_fits_simple_def)
  from hdr sf pl sz rd show ?thesis unfolding pad_def by blast
qed

text \<open>
  C3, amended: when the header loop finds an \<open>END\<close> record, the reader returns \<open>None\<close>
  exactly when a \<open>NAXIS\<close>, \<open>NAXIS1\<close> or \<open>BITPIX\<close> record has a value that is not an
  integer, or the number of payload bytes is not a multiple of the element size, or
  fewer payload bytes than one element remain, or a negative \<open>NAXIS1\<close> trims the array
  to nothing; otherwise it returns a non-empty array, never an empty one.
\<close>

theorem read_fits_failure_cases:
  assumes "read_cards contents 0 [] = Some cards"
  shows "(read_fits_simple contents = Some PyNone \<longleftrightarrow>
            (\<exists>c\<in>set cards. is_field_card c \<and> isl (card_value c))
          \<or> (\<exists>f. scan_fields cards no_fields = Inr f \<and>
               (length (payload_of contents cards) mod itemsize (dtype_of (bitpix f)) \<noteq> 0
                \<or> length (payload_of contents cards) < itemsize (dtype_of (bitpix f))
                \<or> (\<exists>m. naxis1 f = Some m \<and> m < 0
                     \<and> int (length (payload_of contents cards) div itemsize (dtype_of (bitpix f)))
                         \<le> - m))))
       \<and> (read_fits_simple contents = Some PyNone
          \<or> (\<exists>a. read_fits_simple contents = Some (Array a) \<and> 0 < array_len a))"
proof (cases "scan_fields cards no_fields")
  case (Inl e)
  then have bad: "\<exists>c\<in>set cards. is_field_card c \<and> isl (card_value c)"
    using scan_fields_fails_iff [of cards no_fields] by simp
  have "read_fits_simple contents = Some PyNone"
    using assms Inl by (simp add: read_fits_simple_def read_fits_body_def)
  with bad show ?thesis by simp
next
  case (Inr f)
  then have good: "\<not> (\<exists>c\<in>set cards. is_field_card c \<and> isl (card_value c))"
    using scan_fields_fails_iff [of cards no_fields] by simp
  let ?buf = "payload_of contents cards"
  let ?dt = "dtype_of (bitpix f)"
  show ?thesis
  proof (cases "frombuffer ?buf ?dt")
    case (Inl e)
    then have md: "length ?buf mod itemsize ?dt \<noteq> 0"
      using frombuffer_Inl_iff [of ?buf ?dt] by simp
    have "read_fits_simple contents = Some PyNone"
      using assms \<open>scan_fields cards no_fields = Inr f\<close> Inl
      by (simp add: read_fits_simple_def read_fits_body_def payload_of_def)
    with md \<open>scan_fields cards no_fields = Inr f\<close> show ?thesis by simp
  next
    case (Inr a)
    then have md: "length ?buf mod itemsize ?dt = 0"
      using frombuffer_Inl_iff [of ?buf ?dt] by simp
    note te = trimmed_empty_iff [OF Inr, of "naxis1 f"]
    have rd: "read_fits_simple contents =
        Some (if array_len (trim_array (naxis1 f) a) = 0 then PyNone
              else Array (trim_array (naxis1 f) a))"
      using assms \<open>scan_fields cards no_fields = Inr f\<close> Inr
      by (simp add: read_fits_simple_def read_fits_body_def payload_of_def Let_def)
    show ?thesis
    proof (cases "array_len (trim_array (naxis1 f) a) = 0")
      case True
      with rd have "read_fits_simple contents = Some PyNone" by simp
      moreover from True te have "length ?buf < itemsize ?dt
         \<or> (\<exists>m. naxis1 f = Some m \<and> m < 0 \<and> int (length ?buf div itemsize ?dt) \<le> - m)"
        by simp
      ultimately show ?thesis using \<open>scan_fields cards no_fields = Inr f\<close> by auto
    next
      case False
      with rd have ok: "read_fits_simple contents = Some (Array (trim_array (naxis1 f) a))" by simp
      from False te have "\<not> (length ?buf < itemsize ?dt
         \<or> (\<exists>m. naxis1 f = Some m \<and> m < 0 \<and> int (length ?buf div itemsize ?dt) \<le> - m))"
        by simp
      with ok md good False \<open>scan_fields cards no_fields = Inr f\<close> show ?thesis by auto
    qed
  qed
qed

theorem read_fits_failure_cases_witness:
  "read_cards (''NAXIS1  = 1O0 / first axis                                                      '' @ ''END                                                                             '') 0 [] = Some [''NAXIS1  = 1O0 / first axis                                                      '', ''END                                                                             '']
   \<and> is_field_card ''NAXIS1  = 1O0 / first axis                                                      '' \<and> card_value ''NAXIS1  = 1O0 / first axis                                                      '' = Inl ValueError
   \<and> read_fits_simple (''NAXIS1  = 1O0 / first axis                                                      '' @ ''END                                                                             '') = Some PyNone"
proof -
  have nb: "\<forall>c\<in>set [''NAXIS1  = 1O0 / first axis                                                      '']. length c = 80 \<and> \<not> startswith (ascii_ignore c) ''END''"
    by (simp add: startswith_def ascii_ignore_def)
  have ne: "startswith (ascii_ignore (take 80 ''END                                                                             '')) ''END''"
    by (simp add: startswith_def ascii_ignore_def)
  have hdr: "read_cards (''NAXIS1  = 1O0 / first axis                                                      '' @ ''END                                                                             '') 0 [] = Some [''NAXIS1  = 1O0 / first axis                                                      '', ''END                                                                             '']"
    using read_cards_header [OF nb ne, of "[]" "[]"] by (simp add: ascii_ignore_def)
  have fc: "is_field_card ''NAXIS1  = 1O0 / first axis                                                      ''" by (simp add: is_field_card_def startswith_def)
  have cv: "card_value ''NAXIS1  = 1O0 / first axis                                                      '' = Inl ValueError"
    by (simp add: card_value_def py_int_def py_strip_def is_space_def py_digits_def
      is_digit_def digit_val_def)
  from fc cv have "\<exists>c\<in>set [''NAXIS1  = 1O0 / first axis                                                      '', ''END                                                                             '']. is_field_card c \<and> isl (card_value c)" by simp
  with read_fits_failure_cases [OF hdr] have "read_fits_simple (''NAXIS1  = 1O0 / first axis                                                      '' @ ''END                                                                             '') = Some PyNone"
    by blast
  with hdr fc cv show ?thesis by blast
qed

end
